theory Spec2Isabelle
  imports Main
begin

section \<open>Data model of server.go\<close>

text \<open>
  Go strings are byte sequences, so \<open>string\<close> (a list of 8-bit characters) is the
  model: the two emoji of the notification texts are written as their UTF-8 bytes.
  A Go \<open>error\<close> is modelled by the text that its \<open>Error()\<close> method returns, which is
  what the verbs \<open>%v\<close> and \<open>%w\<close> of \<open>fmt\<close> print.
\<close>

type_synonym error = string

text \<open>
  An \<open>io.Reader\<close> holding a body: either the bytes it delivers, or the error that
  reading it ends with.
\<close>

type_synonym reader = "error + string"

record TelegramMessage =
  Text :: string

record TelegramUpdate =
  UpdateID :: int
  Message :: TelegramMessage

record Article =
  Title :: string
  Description :: string
  Image :: string

record OpenRouterMessage =
  Role :: string
  Content :: string

record OpenRouterRequest =
  Model :: string
  Messages :: "OpenRouterMessage list"

text \<open>
  One element of \<open>OpenRouterResponse.Choices\<close>: the anonymous struct whose only field
  \<open>Message\<close> is an anonymous struct whose only field is \<open>Content\<close>.
\<close>

record OpenRouterChoice =
  MessageContent :: string

record OpenRouterResponse =
  Choices :: "OpenRouterChoice list"

record http_request =
  Method :: string
  URL :: string
  Header :: "string \<rightharpoonup> string"
  ReqBody :: string

record http_response =
  StatusCode :: int
  Body :: reader

section \<open>The world outside the program\<close>

text \<open>
  Everything the program obtains from its environment and from library code whose
  result it cannot determine itself: the process environment, the JSON codec, the
  \<open>%q\<close> verb of \<open>fmt\<close>, the validation of \<open>http.NewRequest\<close>, the default HTTP client
  and the OAuth1-signing client. A run of the handler reads the environment only and
  sends each outbound request at most once, so functions of the request are as general
  as a world with state.
\<close>

record world =
  getenv :: "string \<Rightarrow> string"
  json_decode_update :: "reader \<Rightarrow> error + TelegramUpdate"
  json_decode_article :: "reader \<Rightarrow> error + Article"
  json_unmarshal_response :: "string \<Rightarrow> error + OpenRouterResponse"
  json_marshal_map :: "(string \<rightharpoonup> string) \<Rightarrow> error + string"
  json_marshal_request :: "OpenRouterRequest \<Rightarrow> error + string"
  fmt_q :: "string \<Rightarrow> string"
  new_request_error :: "string \<Rightarrow> string \<Rightarrow> error option"
  client_do :: "http_request \<Rightarrow> error + http_response"
  oauth1_client_do :: "string \<Rightarrow> string \<Rightarrow> string \<Rightarrow> string \<Rightarrow> http_request \<Rightarrow> error + http_response"

section \<open>Observable events\<close>

text \<open>
  What a run does is recorded as the list of its events, in order: the two ways the
  handler writes to the \<open>http.ResponseWriter\<close>, the entry into each of the four
  component functions with its arguments, and every request handed to an HTTP client.
  Output of the \<open>log\<close> package is not recorded.
\<close>

datatype event =
    WriteHeader int
  | HttpError string int
  | Call_sendTelegramNotification string string
  | Call_fetchArticle string
  | Call_getHashtags string string
  | Call_postToTwitter Article string string
  | ClientDo http_request
  | OAuth1ClientDo string string string string http_request

fun is_response :: "event \<Rightarrow> bool" where
  "is_response (WriteHeader c) = True"
| "is_response (HttpError m c) = True"
| "is_response e = False"

fun is_notify :: "event \<Rightarrow> bool" where
  "is_notify (Call_sendTelegramNotification m p) = True"
| "is_notify e = False"

fun is_resolve :: "event \<Rightarrow> bool" where
  "is_resolve (Call_fetchArticle i) = True"
| "is_resolve e = False"

fun is_generate :: "event \<Rightarrow> bool" where
  "is_generate (Call_getHashtags t d) = True"
| "is_generate e = False"

fun is_publish :: "event \<Rightarrow> bool" where
  "is_publish (Call_postToTwitter a i h) = True"
| "is_publish e = False"

fun is_signed :: "event \<Rightarrow> bool" where
  "is_signed (OAuth1ClientDo ck cs t ts r) = True"
| "is_signed e = False"

fun is_outbound :: "event \<Rightarrow> bool" where
  "is_outbound (ClientDo r) = True"
| "is_outbound (OAuth1ClientDo ck cs t ts r) = True"
| "is_outbound e = False"

text \<open>
  The status the transport receives: \<open>net/http\<close> sends the status of the first write to
  the \<open>ResponseWriter\<close>, and 200 when the handler returns without one.
\<close>

fun transport_status :: "event list \<Rightarrow> int" where
  "transport_status [] = 200"
| "transport_status (WriteHeader c # es) = c"
| "transport_status (HttpError m c # es) = c"
| "transport_status (e # es) = transport_status es"

section \<open>Library functions with a determined result\<close>

text \<open>\<open>strings.HasPrefix\<close>.\<close>

definition HasPrefix :: "string \<Rightarrow> string \<Rightarrow> bool" where
  "HasPrefix s p = (length p \<le> length s \<and> take (length p) s = p)"

text \<open>The verb \<open>%d\<close> of \<open>fmt\<close> on an \<open>int\<close>.\<close>

fun fmt_u :: "nat \<Rightarrow> string" where
  "fmt_u n = (if n < 10 then [''0123456789'' ! n]
              else fmt_u (n div 10) @ [''0123456789'' ! (n mod 10)])"

declare fmt_u.simps [simp del]

definition fmt_d :: "int \<Rightarrow> string" where
  "fmt_d i = (if i < 0 then CHR ''-'' # fmt_u (nat (- i)) else fmt_u (nat i))"

text \<open>
  \<open>http.NewRequest\<close> with a body: the request with no header set, or the error of the
  validation of method and URL.
\<close>

definition NewRequest :: "world \<Rightarrow> string \<Rightarrow> string \<Rightarrow> string \<Rightarrow> error + http_request" where
  "NewRequest w method url body =
     (case new_request_error w method url of
        Some err \<Rightarrow> Inl err
      | None \<Rightarrow> Inr \<lparr>Method = method, URL = url, Header = Map.empty, ReqBody = body\<rparr>)"

text \<open>\<open>req.Header.Set\<close>.\<close>

definition Header_Set :: "http_request \<Rightarrow> string \<Rightarrow> string \<Rightarrow> http_request" where
  "Header_Set req k v = req\<lparr>Header := (Header req)(k \<mapsto> v)\<rparr>"

text \<open>The requests that \<open>http.Get\<close> and \<open>http.Post\<close> hand to the default client.\<close>

definition http_Get_request :: "string \<Rightarrow> http_request" where
  "http_Get_request url = \<lparr>Method = ''GET'', URL = url, Header = Map.empty, ReqBody = []\<rparr>"

definition http_Post_request :: "string \<Rightarrow> string \<Rightarrow> string \<Rightarrow> http_request" where
  "http_Post_request url contentType body =
     \<lparr>Method = ''POST'', URL = url, Header = [''Content-Type'' \<mapsto> contentType], ReqBody = body\<rparr>"

text \<open>\<open>io.ReadAll\<close>.\<close>

definition ReadAll :: "reader \<Rightarrow> error + string" where
  "ReadAll r = r"

section \<open>sendTelegramNotification\<close>

definition requestData :: "string \<Rightarrow> string \<Rightarrow> string \<Rightarrow> (string \<rightharpoonup> string)" where
  "requestData chatID message parseMode =
     (let m = [''chat_id'' \<mapsto> chatID, ''text'' \<mapsto> message]
      in if parseMode \<noteq> [] then m(''parse_mode'' \<mapsto> parseMode) else m)"

text \<open>
  The function returns nothing and every failure inside it is only logged, so its model
  is the list of its events. The response to the request is used for the log only.
\<close>

definition sendTelegramNotification :: "world \<Rightarrow> string \<Rightarrow> string \<Rightarrow> event list" where
  "sendTelegramNotification w message parseMode =
     Call_sendTelegramNotification message parseMode #
     (let botToken = getenv w ''TELEGRAM_BOT_TOKEN'';
          chatID = getenv w ''TELEGRAM_CHAT_ID''
      in if botToken = [] \<or> chatID = [] then []
         else let apiURL = ''https://api.telegram.org/bot'' @ botToken @ ''/sendMessage''
              in case json_marshal_map w (requestData chatID message parseMode) of
                   Inl err \<Rightarrow> []
                 | Inr requestBody \<Rightarrow>
                     [ClientDo (http_Post_request apiURL ''application/json'' requestBody)])"

section \<open>fetchArticle\<close>

definition fetchArticle :: "world \<Rightarrow> string \<Rightarrow> event list \<times> (error + Article)" where
  "fetchArticle w ident =
     (let url = ''https://viewon.news/notion.php?id='' @ ident;
          req = http_Get_request url
      in ([Call_fetchArticle ident, ClientDo req],
          case client_do w req of
            Inl err \<Rightarrow> Inl (''could not fetch article: '' @ err)
          | Inr resp \<Rightarrow>
              if StatusCode resp \<noteq> 200
              then Inl (''unexpected status code: '' @ fmt_d (StatusCode resp))
              else (case json_decode_article w (Body resp) of
                      Inl err \<Rightarrow> Inl (''could not decode article data: '' @ err)
                    | Inr article \<Rightarrow> Inr article)))"

section \<open>postToTwitter\<close>

definition articleURL :: "string \<Rightarrow> string" where
  "articleURL messageID = ''https://viewon.news/article.html?id='' @ messageID"

definition tweetText :: "Article \<Rightarrow> string \<Rightarrow> string \<Rightarrow> string" where
  "tweetText article messageID hashtags =
     Title article @ [CHR 0x0A] @ hashtags @ [CHR 0x0A, CHR 0x0A] @ articleURL messageID"

definition tweetPayload :: "world \<Rightarrow> string \<Rightarrow> string" where
  \<open>tweetPayload w txt = ''{"text": '' @ fmt_q w txt @ ''}''\<close>

definition tweetURL :: string where
  "tweetURL = ''https://api.twitter.com/2/tweets''"

text \<open>The result is Go's \<open>error\<close>: \<open>None\<close> is \<open>nil\<close>.\<close>

definition postToTwitter :: "world \<Rightarrow> Article \<Rightarrow> string \<Rightarrow> string \<Rightarrow> event list \<times> error option" where
  "postToTwitter w article messageID hashtags =
     (let consumerKey = getenv w ''TWITTER_CONSUMER_KEY'';
          consumerSecret = getenv w ''TWITTER_CONSUMER_SECRET'';
          accessToken = getenv w ''TWITTER_ACCESS_TOKEN'';
          accessSecret = getenv w ''TWITTER_ACCESS_SECRET''
      in if consumerKey = [] \<or> consumerSecret = [] \<or> accessToken = [] \<or> accessSecret = []
         then ([Call_postToTwitter article messageID hashtags],
               Some ''twitter api credentials not set'')
         else (case NewRequest w ''POST'' tweetURL
                      (tweetPayload w (tweetText article messageID hashtags)) of
                 Inl err \<Rightarrow>
                   ([Call_postToTwitter article messageID hashtags],
                    Some (''failed to create request: '' @ err))
               | Inr req0 \<Rightarrow>
                   (let req = Header_Set req0 ''Content-Type'' ''application/json''
                    in ([Call_postToTwitter article messageID hashtags,
                         OAuth1ClientDo consumerKey consumerSecret accessToken accessSecret req],
                        case oauth1_client_do w consumerKey consumerSecret accessToken accessSecret req of
                          Inl err \<Rightarrow> Some (''failed to send request: '' @ err)
                        | Inr resp \<Rightarrow>
                            (case ReadAll (Body resp) of
                               Inl err \<Rightarrow> Some (''failed to read response body: '' @ err)
                             | Inr body \<Rightarrow>
                                 if StatusCode resp \<noteq> 201
                                 then Some (''received non-201 status code: '' @ fmt_d (StatusCode resp)
                                            @ [CHR 0x0A] @ ''Response: '' @ body)
                                 else None)))))"

section \<open>getHashtags\<close>

definition prompt :: "string \<Rightarrow> string \<Rightarrow> string" where
  "prompt title description =
     ''Based on the following news article title and description, generate 3-5 relevant hashtags for a tweet. Do not include any other text, just the hashtags starting with #.''
     @ [CHR 0x0A, CHR 0x0A] @ ''Title: '' @ title @ [CHR 0x0A] @ ''Description: '' @ description"

definition requestBody :: "string \<Rightarrow> string \<Rightarrow> OpenRouterRequest" where
  "requestBody title description =
     \<lparr>Model = ''deepseek/deepseek-r1:free'',
      Messages = [\<lparr>Role = ''user'', Content = prompt title description\<rparr>]\<rparr>"

definition getHashtags :: "world \<Rightarrow> string \<Rightarrow> string \<Rightarrow> event list \<times> (error + string)" where
  "getHashtags w title description =
     (let apiKey = getenv w ''OPENROUTER_API_KEY''
      in if apiKey = []
         then ([Call_getHashtags title description], Inl ''OPENROUTER_API_KEY not set'')
         else (case json_marshal_request w (requestBody title description) of
                 Inl err \<Rightarrow>
                   ([Call_getHashtags title description],
                    Inl (''failed to marshal request body: '' @ err))
               | Inr payload \<Rightarrow>
                   (case NewRequest w ''POST'' ''https://openrouter.ai/api/v1/chat/completions'' payload of
                      Inl err \<Rightarrow>
                        ([Call_getHashtags title description],
                         Inl (''failed to create request: '' @ err))
                    | Inr req0 \<Rightarrow>
                        (let req = Header_Set (Header_Set req0 ''Authorization'' (''Bearer '' @ apiKey))
                                     ''Content-Type'' ''application/json''
                         in ([Call_getHashtags title description, ClientDo req],
                             case client_do w req of
                               Inl err \<Rightarrow> Inl (''failed to send request to OpenRouter: '' @ err)
                             | Inr resp \<Rightarrow>
                                 (case ReadAll (Body resp) of
                                    Inl err \<Rightarrow>
                                      Inl (''failed to read response body from OpenRouter: '' @ err)
                                  | Inr body \<Rightarrow>
                                      if StatusCode resp \<noteq> 200
                                      then Inl (''received non-200 status from OpenRouter: '' @ body)
                                      else (case json_unmarshal_response w body of
                                              Inl err \<Rightarrow>
                                                Inl (''failed to unmarshal OpenRouter response: '' @ err)
                                            | Inr openRouterResponse \<Rightarrow>
                                                if length (Choices openRouterResponse) > 0
                                                then Inr (MessageContent (Choices openRouterResponse ! 0))
                                                else Inl ''no content found in OpenRouter response'')))))))"

section \<open>telegramHandler\<close>

definition fetch_errMsg :: "string \<Rightarrow> error \<Rightarrow> string" where
  "fetch_errMsg text err =
     [CHR 0xE2, CHR 0x9D, CHR 0x8C] @ '' Failed to fetch article with ID '' @ text
     @ ''. Reason: '' @ err"

definition hashtags_errMsg :: "string \<Rightarrow> error \<Rightarrow> string" where
  "hashtags_errMsg text err =
     [CHR 0xE2, CHR 0x9D, CHR 0x8C] @ '' Failed to get hashtags for article with ID '' @ text
     @ ''. Reason: '' @ err"

definition twitter_errMsg :: "string \<Rightarrow> error \<Rightarrow> string" where
  "twitter_errMsg text err =
     [CHR 0xE2, CHR 0x9D, CHR 0x8C] @ '' Failed to post to Twitter for article with ID '' @ text
     @ ''. Reason: '' @ err"

definition successMessage :: "string \<Rightarrow> string" where
  "successMessage text =
     [CHR 0xE2, CHR 0x9C, CHR 0x85] @ '' Successfully posted article with ID: `'' @ text @ ''`''"

text \<open>
  The handler, from the body of the inbound request to the events of the run. The
  three \<open>errMsg\<close> texts and \<open>successMessage\<close> above are the \<open>fmt.Sprintf\<close> calls of the
  handler.
\<close>

definition telegramHandler :: "world \<Rightarrow> reader \<Rightarrow> event list" where
  "telegramHandler w rbody =
     (case json_decode_update w rbody of
        Inl err \<Rightarrow> [HttpError ''bad request'' 400]
      | Inr update \<Rightarrow>
          (let text = Text (Message update)
           in if HasPrefix text ''http://'' \<or> HasPrefix text ''https://''
              then [WriteHeader 200]
              else (case fetchArticle w text of
                      (ev1, Inl err) \<Rightarrow>
                        ev1 @ sendTelegramNotification w (fetch_errMsg text err) [] @ [WriteHeader 200]
                    | (ev1, Inr article) \<Rightarrow>
                        (case getHashtags w (Title article) (Description article) of
                           (ev2, Inl err) \<Rightarrow>
                             ev1 @ ev2 @ sendTelegramNotification w (hashtags_errMsg text err) []
                             @ [WriteHeader 200]
                         | (ev2, Inr hashtags) \<Rightarrow>
                             (case postToTwitter w article text hashtags of
                                (ev3, Some err) \<Rightarrow>
                                  ev1 @ ev2 @ ev3
                                  @ sendTelegramNotification w (twitter_errMsg text err) []
                                  @ [WriteHeader 200]
                              | (ev3, None) \<Rightarrow>
                                  ev1 @ ev2 @ ev3 @ [WriteHeader 200]
                                  @ sendTelegramNotification w (successMessage text) ''MarkdownV2'')))))"

section \<open>Outbound requests by endpoint\<close>




section \<open>The scenarios of the specification\<close>

text \<open>
  A world for the scenario of the specification in which every stage succeeds: all
  credentials are set, and the codec and the three services are tables holding the
  entries that the scenario reads. The inbound body names the article \<open>abc123\<close>, the
  lookup answers with title \<open>T\<close> and description \<open>D\<close>, the language model with
  \<open>#a #b #c\<close>, and the social-media service with 201.
\<close>

definition scenario_body :: reader where
  \<open>scenario_body = Inr ''{"update_id":1,"message":{"text":"abc123"}}''\<close>

definition url_body :: reader where
  \<open>url_body = Inr ''{"update_id":2,"message":{"text":"https://evil.example/x"}}''\<close>

definition malformed_body :: reader where
  \<open>malformed_body = Inr ''{"update_id":''\<close>

definition scenario_article :: Article where
  "scenario_article = \<lparr>Title = ''T'', Description = ''D'', Image = []\<rparr>"

definition scenario_getenv :: "string \<Rightarrow> string" where
  "scenario_getenv k =
     (if k = ''TELEGRAM_BOT_TOKEN'' then ''123:abc''
      else if k = ''TELEGRAM_CHAT_ID'' then ''-1001''
      else if k = ''OPENROUTER_API_KEY'' then ''sk-or''
      else if k = ''TWITTER_CONSUMER_KEY'' then ''ck''
      else if k = ''TWITTER_CONSUMER_SECRET'' then ''cs''
      else if k = ''TWITTER_ACCESS_TOKEN'' then ''at''
      else if k = ''TWITTER_ACCESS_SECRET'' then ''as''
      else [])"

definition scenario_quote :: "string \<Rightarrow> string" where
  "scenario_quote s =
     CHR 0x22 #
     concat (map (\<lambda>c. if c = CHR 0x0A then [CHR 0x5C, CHR ''n'']
                         else if c = CHR 0x22 then [CHR 0x5C, CHR 0x22]
                         else if c = CHR 0x5C then [CHR 0x5C, CHR 0x5C]
                         else [c]) s)
     @ [CHR 0x22]"

definition scenario_marshal_map :: "(string \<rightharpoonup> string) \<Rightarrow> error + string" where
  \<open>scenario_marshal_map m =
     Inr (''{"chat_id":'' @ scenario_quote (case m ''chat_id'' of None \<Rightarrow> [] | Some v \<Rightarrow> v)
          @ (case m ''parse_mode'' of None \<Rightarrow> []
             | Some v \<Rightarrow> '',"parse_mode":'' @ scenario_quote v)
          @ '',"text":'' @ scenario_quote (case m ''text'' of None \<Rightarrow> [] | Some v \<Rightarrow> v)
          @ ''}'')\<close>

definition scenario_marshal_request :: "OpenRouterRequest \<Rightarrow> error + string" where
  \<open>scenario_marshal_request r =
     Inr (''{"model":'' @ scenario_quote (Model r) @ '',"messages":[''
          @ concat (map (\<lambda>m. ''{"role":'' @ scenario_quote (Role m) @ '',"content":''
                               @ scenario_quote (Content m) @ ''}'') (Messages r))
          @ '']}'')\<close>

definition scenario_client_do :: "http_request \<Rightarrow> error + http_response" where
  \<open>scenario_client_do req =
     (if URL req = ''https://viewon.news/notion.php?id=abc123''
      then Inr \<lparr>StatusCode = 200, Body = Inr ''{"title":"T","description":"D"}''\<rparr>
      else if URL req = ''https://openrouter.ai/api/v1/chat/completions''
      then Inr \<lparr>StatusCode = 200,
                Body = Inr ''{"choices":[{"message":{"content":"#a #b #c"}}]}''\<rparr>
      else if URL req = ''https://api.telegram.org/bot123:abc/sendMessage''
      then Inr \<lparr>StatusCode = 200, Body = Inr ''{"ok":true}''\<rparr>
      else Inr \<lparr>StatusCode = 404, Body = Inr []\<rparr>)\<close>

definition scenario_world :: world where
  \<open>scenario_world =
     \<lparr>getenv = scenario_getenv,
      json_decode_update =
        (\<lambda>r. if r = scenario_body
             then Inr \<lparr>UpdateID = 1, Message = \<lparr>Text = ''abc123''\<rparr>\<rparr>
             else if r = url_body
             then Inr \<lparr>UpdateID = 2, Message = \<lparr>Text = ''https://evil.example/x''\<rparr>\<rparr>
             else Inl ''unexpected EOF''),
      json_decode_article =
        (\<lambda>r. if r = Inr ''{"title":"T","description":"D"}'' then Inr scenario_article
             else Inl ''unexpected EOF''),
      json_unmarshal_response =
        (\<lambda>s. if s = ''{"choices":[{"message":{"content":"#a #b #c"}}]}''
             then Inr \<lparr>Choices = [\<lparr>MessageContent = ''#a #b #c''\<rparr>]\<rparr>
             else if s = ''{"choices":[]}'' then Inr \<lparr>Choices = []\<rparr>
             else Inl ''unexpected end of JSON input''),
      json_marshal_map = scenario_marshal_map,
      json_marshal_request = scenario_marshal_request,
      fmt_q = scenario_quote,
      new_request_error = (\<lambda>method url. None),
      client_do = scenario_client_do,
      oauth1_client_do =
        (\<lambda>ck cs t ts req. Inr \<lparr>StatusCode = 201, Body = Inr ''{"data":{"id":"1"}}''\<rparr>)\<rparr>\<close>

text \<open>The same world with the article lookup answering 404 to every identifier.\<close>

definition outage_world :: world where
  "outage_world =
     scenario_world\<lparr>client_do := (\<lambda>req. Inr \<lparr>StatusCode = 404, Body = Inr []\<rparr>)\<rparr>"

text \<open>The same world with the social-media service answering 200 instead of 201.\<close>

definition ok_world :: world where
  \<open>ok_world =
     scenario_world\<lparr>oauth1_client_do :=
       (\<lambda>ck cs t ts req. Inr \<lparr>StatusCode = 200, Body = Inr ''{"data":{}}''\<rparr>)\<rparr>\<close>

text \<open>The same world with the language model answering 200 with no completion.\<close>

definition no_choice_world :: world where
  \<open>no_choice_world =
     scenario_world\<lparr>client_do :=
       (\<lambda>req. if URL req = ''https://openrouter.ai/api/v1/chat/completions''
              then Inr \<lparr>StatusCode = 200, Body = Inr ''{"choices":[]}''\<rparr>
              else scenario_client_do req)\<rparr>\<close>

text \<open>
  The same world with the social-media service answering 201 with a body that cannot be
  read to its end.
\<close>

definition unreadable_world :: world where
  "unreadable_world =
     scenario_world\<lparr>oauth1_client_do :=
       (\<lambda>ck cs t ts req. Inr \<lparr>StatusCode = 201, Body = Inl ''unexpected EOF''\<rparr>)\<rparr>"

text \<open>An article with the title of the scenario's and another description and image.\<close>

definition other_article :: Article where
  "other_article =
     \<lparr>Title = ''T'', Description = ''Another description'',
      Image = ''https://viewon.news/img/1.png''\<rparr>"

section \<open>Events of the component functions\<close>

text \<open>
  The stage-level events of a run are those that are not requests to an HTTP client.
  Each component function contributes exactly its own entry; the case lemmas below give
  the stage-level events of the handler on each of its six paths.
\<close>

lemma filter_stage:
  "(\<And>e. P e \<Longrightarrow> \<not> is_outbound e) \<Longrightarrow> filter P (filter (\<lambda>e. \<not> is_outbound e) es) = filter P es"
  by (induction es) auto

lemma response_not_outbound: "is_response e \<Longrightarrow> \<not> is_outbound e"
  by (cases e) simp_all
lemma notify_not_outbound: "is_notify e \<Longrightarrow> \<not> is_outbound e"
  by (cases e) simp_all
lemma generate_not_outbound: "is_generate e \<Longrightarrow> \<not> is_outbound e"
  by (cases e) simp_all
lemma publish_not_outbound: "is_publish e \<Longrightarrow> \<not> is_outbound e"
  by (cases e) simp_all

lemma filter_response_stage:
  "filter is_response (filter (\<lambda>e. \<not> is_outbound e) es) = filter is_response es"
  by (rule filter_stage) (rule response_not_outbound)

lemma filter_notify_stage:
  "filter is_notify (filter (\<lambda>e. \<not> is_outbound e) es) = filter is_notify es"
  by (rule filter_stage) (rule notify_not_outbound)


lemma filter_generate_stage:
  "filter is_generate (filter (\<lambda>e. \<not> is_outbound e) es) = filter is_generate es"
  by (rule filter_stage) (rule generate_not_outbound)

lemma filter_publish_stage:
  "filter is_publish (filter (\<lambda>e. \<not> is_outbound e) es) = filter is_publish es"
  by (rule filter_stage) (rule publish_not_outbound)

lemma transport_status_filter: "transport_status (filter is_response es) = transport_status es"
  by (induction es rule: transport_status.induct) simp_all

lemma sendTelegramNotification_stages:
  "filter (\<lambda>e. \<not> is_outbound e) (sendTelegramNotification w m p) = [Call_sendTelegramNotification m p]"
  by (simp add: sendTelegramNotification_def Let_def split: sum.splits)

lemma fetchArticle_events:
  "fst (fetchArticle w i) =
     [Call_fetchArticle i, ClientDo (http_Get_request (''https://viewon.news/notion.php?id='' @ i))]"
  by (simp add: fetchArticle_def Let_def)

lemma fetchArticle_stages:
  "filter (\<lambda>e. \<not> is_outbound e) (fst (fetchArticle w i)) = [Call_fetchArticle i]"
  by (simp add: fetchArticle_events)

lemma getHashtags_stages:
  "filter (\<lambda>e. \<not> is_outbound e) (fst (getHashtags w t d)) = [Call_getHashtags t d]"
  by (simp add: getHashtags_def Let_def split: sum.splits)

lemma postToTwitter_stages:
  "filter (\<lambda>e. \<not> is_outbound e) (fst (postToTwitter w a i h)) = [Call_postToTwitter a i h]"
  by (simp add: postToTwitter_def Let_def split: sum.splits)

lemmas stages = sendTelegramNotification_stages fetchArticle_stages getHashtags_stages
  postToTwitter_stages

lemma handler_undecodable:
  assumes "json_decode_update w rbody = Inl err"
  shows "telegramHandler w rbody = [HttpError ''bad request'' 400]"
  using assms by (simp add: telegramHandler_def)

lemma handler_url:
  assumes "json_decode_update w rbody = Inr update"
    and "HasPrefix (Text (Message update)) ''http://'' \<or> HasPrefix (Text (Message update)) ''https://''"
  shows "telegramHandler w rbody = [WriteHeader 200]"
  using assms by (auto simp add: telegramHandler_def Let_def)

lemma handler_resolve_fails:
  assumes "json_decode_update w rbody = Inr update"
    and "\<not> HasPrefix (Text (Message update)) ''http://''"
    and "\<not> HasPrefix (Text (Message update)) ''https://''"
    and "snd (fetchArticle w (Text (Message update))) = Inl err"
  shows "filter (\<lambda>e. \<not> is_outbound e) (telegramHandler w rbody) =
           [Call_fetchArticle (Text (Message update)),
            Call_sendTelegramNotification (fetch_errMsg (Text (Message update)) err) [],
            WriteHeader 200]"
  using assms by (simp add: telegramHandler_def Let_def case_prod_beta stages)

lemma handler_generate_fails:
  assumes "json_decode_update w rbody = Inr update"
    and "\<not> HasPrefix (Text (Message update)) ''http://''"
    and "\<not> HasPrefix (Text (Message update)) ''https://''"
    and "snd (fetchArticle w (Text (Message update))) = Inr article"
    and "snd (getHashtags w (Title article) (Description article)) = Inl err"
  shows "filter (\<lambda>e. \<not> is_outbound e) (telegramHandler w rbody) =
           [Call_fetchArticle (Text (Message update)),
            Call_getHashtags (Title article) (Description article),
            Call_sendTelegramNotification (hashtags_errMsg (Text (Message update)) err) [],
            WriteHeader 200]"
  using assms by (simp add: telegramHandler_def Let_def case_prod_beta stages)

lemma handler_publish_fails:
  assumes "json_decode_update w rbody = Inr update"
    and "\<not> HasPrefix (Text (Message update)) ''http://''"
    and "\<not> HasPrefix (Text (Message update)) ''https://''"
    and "snd (fetchArticle w (Text (Message update))) = Inr article"
    and "snd (getHashtags w (Title article) (Description article)) = Inr hashtags"
    and "snd (postToTwitter w article (Text (Message update)) hashtags) = Some err"
  shows "filter (\<lambda>e. \<not> is_outbound e) (telegramHandler w rbody) =
           [Call_fetchArticle (Text (Message update)),
            Call_getHashtags (Title article) (Description article),
            Call_postToTwitter article (Text (Message update)) hashtags,
            Call_sendTelegramNotification (twitter_errMsg (Text (Message update)) err) [],
            WriteHeader 200]"
  using assms by (simp add: telegramHandler_def Let_def case_prod_beta stages)

lemma handler_success:
  assumes "json_decode_update w rbody = Inr update"
    and "\<not> HasPrefix (Text (Message update)) ''http://''"
    and "\<not> HasPrefix (Text (Message update)) ''https://''"
    and "snd (fetchArticle w (Text (Message update))) = Inr article"
    and "snd (getHashtags w (Title article) (Description article)) = Inr hashtags"
    and "snd (postToTwitter w article (Text (Message update)) hashtags) = None"
  shows "filter (\<lambda>e. \<not> is_outbound e) (telegramHandler w rbody) =
           [Call_fetchArticle (Text (Message update)),
            Call_getHashtags (Title article) (Description article),
            Call_postToTwitter article (Text (Message update)) hashtags,
            WriteHeader 200,
            Call_sendTelegramNotification (successMessage (Text (Message update))) ''MarkdownV2'']"
  using assms by (simp add: telegramHandler_def Let_def case_prod_beta stages)

section \<open>The whole trace on the four paths after validation\<close>

lemma handler_resolve_fails_trace:
  assumes "json_decode_update w rbody = Inr update"
    and "\<not> HasPrefix (Text (Message update)) ''http://''"
    and "\<not> HasPrefix (Text (Message update)) ''https://''"
    and "snd (fetchArticle w (Text (Message update))) = Inl err"
  shows "telegramHandler w rbody =
           fst (fetchArticle w (Text (Message update)))
           @ sendTelegramNotification w (fetch_errMsg (Text (Message update)) err) []
           @ [WriteHeader 200]"
  using assms by (simp add: telegramHandler_def Let_def case_prod_beta)



lemma handler_success_trace:
  assumes "json_decode_update w rbody = Inr update"
    and "\<not> HasPrefix (Text (Message update)) ''http://''"
    and "\<not> HasPrefix (Text (Message update)) ''https://''"
    and "snd (fetchArticle w (Text (Message update))) = Inr article"
    and "snd (getHashtags w (Title article) (Description article)) = Inr hashtags"
    and "snd (postToTwitter w article (Text (Message update)) hashtags) = None"
  shows "telegramHandler w rbody =
           fst (fetchArticle w (Text (Message update)))
           @ fst (getHashtags w (Title article) (Description article))
           @ fst (postToTwitter w article (Text (Message update)) hashtags)
           @ [WriteHeader 200]
           @ sendTelegramNotification w (successMessage (Text (Message update))) ''MarkdownV2''"
  using assms by (simp add: telegramHandler_def Let_def case_prod_beta)

lemma sendTelegramNotification_signed:
  "filter is_signed (sendTelegramNotification w m p) = []"
  by (simp add: sendTelegramNotification_def Let_def split: sum.splits)

lemma fetchArticle_signed: "filter is_signed (fst (fetchArticle w i)) = []"
  by (simp add: fetchArticle_events)

lemma getHashtags_signed: "filter is_signed (fst (getHashtags w t d)) = []"
  by (simp add: getHashtags_def Let_def split: sum.splits)


lemma sendTelegramNotification_outbound:
  "length (filter is_outbound (sendTelegramNotification w m p)) \<le> 1"
  by (simp add: sendTelegramNotification_def Let_def split: sum.splits)


lemma getHashtags_outbound: "length (filter is_outbound (fst (getHashtags w t d))) \<le> 1"
  by (simp add: getHashtags_def Let_def split: sum.splits)

lemma postToTwitter_outbound: "length (filter is_outbound (fst (postToTwitter w a i h))) \<le> 1"
  by (simp add: postToTwitter_def Let_def split: sum.splits)

lemma postToTwitter_success_events:
  assumes "snd (postToTwitter w a i h) = None"
  shows "fst (postToTwitter w a i h) =
           [Call_postToTwitter a i h,
            OAuth1ClientDo (getenv w ''TWITTER_CONSUMER_KEY'') (getenv w ''TWITTER_CONSUMER_SECRET'')
              (getenv w ''TWITTER_ACCESS_TOKEN'') (getenv w ''TWITTER_ACCESS_SECRET'')
              (Header_Set \<lparr>Method = ''POST'', URL = tweetURL, Header = Map.empty,
                           ReqBody = tweetPayload w (tweetText a i h)\<rparr>
                 ''Content-Type'' ''application/json'')]"
  using assms
  by (simp add: postToTwitter_def NewRequest_def Let_def split: if_splits sum.splits option.splits)

section \<open>The transport-facing acknowledgment\<close>

lemma valid_trigger_responses:
  assumes "json_decode_update w rbody = Inr update"
    and "\<not> HasPrefix (Text (Message update)) ''http://''"
    and "\<not> HasPrefix (Text (Message update)) ''https://''"
  shows "filter is_response (telegramHandler w rbody) = [WriteHeader 200]"
proof -
  let ?text = "Text (Message update)"
  let ?stages = "filter (\<lambda>e. \<not> is_outbound e) (telegramHandler w rbody)"
  have "filter is_response (telegramHandler w rbody) = filter is_response ?stages"
    by (simp only: filter_response_stage)
  also have "\<dots> = [WriteHeader 200]"
  proof (cases "snd (fetchArticle w ?text)")
    case (Inl err)
    then show ?thesis
      using assms by (simp add: handler_resolve_fails)
  next
    case (Inr article)
    note resolved = this
    show ?thesis
    proof (cases "snd (getHashtags w (Title article) (Description article))")
      case (Inl err)
      then show ?thesis
        using assms resolved by (simp add: handler_generate_fails)
    next
      case (Inr hashtags)
      note generated = this
      show ?thesis
      proof (cases "snd (postToTwitter w article ?text hashtags)")
        case None
        then show ?thesis
          using assms resolved generated by (simp add: handler_success)
      next
        case (Some err)
        then show ?thesis
          using assms resolved generated by (simp add: handler_publish_fails)
      qed
    qed
  qed
  finally show ?thesis .
qed

text \<open>Facts of the scenario worlds.\<close>

lemma scenario_decodes:
  "json_decode_update scenario_world scenario_body
     = Inr \<lparr>UpdateID = 1, Message = \<lparr>Text = ''abc123''\<rparr>\<rparr>"
  by (simp add: scenario_world_def)

lemma outage_decodes:
  "json_decode_update outage_world scenario_body
     = Inr \<lparr>UpdateID = 1, Message = \<lparr>Text = ''abc123''\<rparr>\<rparr>"
  by (simp add: outage_world_def scenario_world_def)

lemma abc123_no_url: "\<not> HasPrefix ''abc123'' ''http://''" "\<not> HasPrefix ''abc123'' ''https://''"
  by (simp_all add: HasPrefix_def)

lemma url_decodes:
  "json_decode_update scenario_world url_body
     = Inr \<lparr>UpdateID = 2, Message = \<lparr>Text = ''https://evil.example/x''\<rparr>\<rparr>"
  by (simp add: scenario_world_def url_body_def scenario_body_def)

lemma malformed_fails:
  "json_decode_update scenario_world malformed_body = Inl ''unexpected EOF''"
  by (simp add: scenario_world_def malformed_body_def scenario_body_def url_body_def)

text \<open>
  Claim C1. For every inbound request whose body decodes as a trigger and whose message
  text begins with neither \<open>http://\<close> nor \<open>https://\<close>, in every world (so whether the
  resolve, generate and publish stages succeed or fail) the handler writes to the
  transport exactly once, and what it writes is status 200; 200 is the status the
  transport receives.
\<close>

theorem C1_valid_trigger_acknowledged_200:
  assumes "json_decode_update w rbody = Inr update"
    and "\<not> HasPrefix (Text (Message update)) ''http://''"
    and "\<not> HasPrefix (Text (Message update)) ''https://''"
  shows "filter is_response (telegramHandler w rbody) = [WriteHeader 200]
         \<and> transport_status (telegramHandler w rbody) = 200"
proof -
  have one: "filter is_response (telegramHandler w rbody) = [WriteHeader 200]"
    using assms by (rule valid_trigger_responses)
  have "transport_status (telegramHandler w rbody)
          = transport_status (filter is_response (telegramHandler w rbody))"
    by (simp add: transport_status_filter)
  with one show ?thesis by simp
qed

theorem C1_witness:
  "json_decode_update outage_world scenario_body
     = Inr \<lparr>UpdateID = 1, Message = \<lparr>Text = ''abc123''\<rparr>\<rparr>
   \<and> \<not> HasPrefix ''abc123'' ''http://'' \<and> \<not> HasPrefix ''abc123'' ''https://''
   \<and> filter is_response (telegramHandler outage_world scenario_body) = [WriteHeader 200]
   \<and> transport_status (telegramHandler outage_world scenario_body) = 200"
  using C1_valid_trigger_acknowledged_200 [OF outage_decodes] outage_decodes abc123_no_url
  by simp

text \<open>
  Claim C2. For every trigger whose message text starts with \<open>http://\<close> or
  \<open>https://\<close>, the only event of the run is the write of status 200: no request goes to
  an HTTP client, no stage is entered, and the Notifier is not invoked.
\<close>

theorem C2_url_trigger_ignored:
  assumes "json_decode_update w rbody = Inr update"
    and "HasPrefix (Text (Message update)) ''http://'' \<or> HasPrefix (Text (Message update)) ''https://''"
  shows "telegramHandler w rbody = [WriteHeader 200]
         \<and> transport_status (telegramHandler w rbody) = 200
         \<and> filter is_outbound (telegramHandler w rbody) = []
         \<and> filter is_resolve (telegramHandler w rbody) = []
         \<and> filter is_generate (telegramHandler w rbody) = []
         \<and> filter is_publish (telegramHandler w rbody) = []
         \<and> filter is_notify (telegramHandler w rbody) = []"
  using handler_url [OF assms] by simp

theorem C2_witness:
  "json_decode_update scenario_world url_body
     = Inr \<lparr>UpdateID = 2, Message = \<lparr>Text = ''https://evil.example/x''\<rparr>\<rparr>
   \<and> HasPrefix ''https://evil.example/x'' ''https://''
   \<and> telegramHandler scenario_world url_body = [WriteHeader 200]
   \<and> transport_status (telegramHandler scenario_world url_body) = 200
   \<and> filter is_outbound (telegramHandler scenario_world url_body) = []
   \<and> filter is_notify (telegramHandler scenario_world url_body) = []"
proof -
  have p: "HasPrefix ''https://evil.example/x'' ''https://''"
    by (simp add: HasPrefix_def)
  show ?thesis
    using C2_url_trigger_ignored [OF url_decodes] url_decodes p by simp
qed

text \<open>
  Claim C3. When the body of the inbound request fails JSON decoding, the only event of
  the run is \<open>http.Error\<close> with status 400 (a 4xx status), so the Notifier is not
  invoked; and whenever the transport receives a status other than 200, the body failed
  to decode.
\<close>

theorem C3_undecodable_is_the_only_failure:
  "(json_decode_update w rbody = Inl err \<longrightarrow>
      telegramHandler w rbody = [HttpError ''bad request'' 400]
      \<and> transport_status (telegramHandler w rbody) = 400
      \<and> filter is_notify (telegramHandler w rbody) = [])
   \<and> (transport_status (telegramHandler w rbody) \<noteq> 200 \<longrightarrow>
        (\<exists>e. json_decode_update w rbody = Inl e))"
proof (intro conjI impI)
  assume "json_decode_update w rbody = Inl err"
  then have h: "telegramHandler w rbody = [HttpError ''bad request'' 400]"
    by (rule handler_undecodable)
  then show "telegramHandler w rbody = [HttpError ''bad request'' 400]" .
  from h show "transport_status (telegramHandler w rbody) = 400" by simp
  from h show "filter is_notify (telegramHandler w rbody) = []" by simp
next
  assume ne: "transport_status (telegramHandler w rbody) \<noteq> 200"
  show "\<exists>e. json_decode_update w rbody = Inl e"
  proof (cases "json_decode_update w rbody")
    case (Inl e)
    then show ?thesis by blast
  next
    case (Inr update)
    show ?thesis
    proof (cases "HasPrefix (Text (Message update)) ''http://'' \<or> HasPrefix (Text (Message update)) ''https://''")
      case True
      with Inr ne show ?thesis by (simp add: handler_url)
    next
      case False
      with Inr have "filter is_response (telegramHandler w rbody) = [WriteHeader 200]"
        by (simp add: valid_trigger_responses)
      then have "transport_status (filter is_response (telegramHandler w rbody)) = 200"
        by simp
      with ne show ?thesis by (simp add: transport_status_filter)
    qed
  qed
qed

theorem C3_witness:
  "json_decode_update scenario_world malformed_body = Inl ''unexpected EOF''
   \<and> telegramHandler scenario_world malformed_body = [HttpError ''bad request'' 400]
   \<and> transport_status (telegramHandler scenario_world malformed_body) = 400
   \<and> transport_status (telegramHandler scenario_world malformed_body) \<noteq> 200
   \<and> filter is_notify (telegramHandler scenario_world malformed_body) = []"
  using C3_undecodable_is_the_only_failure [of scenario_world malformed_body "''unexpected EOF''"]
    malformed_fails
  by simp

section \<open>Failure of the Article Resolver\<close>

text \<open>
  Claim C4. When the trigger names the identifier \<open>X\<close> and the Article Resolver fails
  for \<open>X\<close> with error \<open>E\<close>, the Notifier is invoked exactly once, with an empty parse
  mode (so the request data holds no \<open>parse_mode\<close>: plain text) and a message that contains
  \<open>X\<close> and the text of \<open>E\<close>; the Hashtag Generator and the Publisher are not invoked and
  no signed request is sent. The resolver runs only for a trigger that passed validation,
  hence the two hypotheses on the prefix of \<open>X\<close>.
\<close>

theorem C4_resolver_failure_notified_once:
  assumes "json_decode_update w rbody = Inr update"
    and "Text (Message update) = X"
    and "\<not> HasPrefix X ''http://''"
    and "\<not> HasPrefix X ''https://''"
    and "snd (fetchArticle w X) = Inl E"
  shows "filter is_notify (telegramHandler w rbody) =
           [Call_sendTelegramNotification
              ([CHR 0xE2, CHR 0x9D, CHR 0x8C] @ '' Failed to fetch article with ID '' @ X
               @ ''. Reason: '' @ E) []]
         \<and> requestData chatID (fetch_errMsg X E) [] ''parse_mode'' = None
         \<and> filter is_generate (telegramHandler w rbody) = []
         \<and> filter is_publish (telegramHandler w rbody) = []
         \<and> filter is_signed (telegramHandler w rbody) = []"
proof -
  let ?run = "telegramHandler w rbody"
  have stages: "filter (\<lambda>e. \<not> is_outbound e) ?run =
      [Call_fetchArticle X, Call_sendTelegramNotification (fetch_errMsg X E) [], WriteHeader 200]"
    using assms handler_resolve_fails [of w rbody update E] by simp
  have "filter is_notify ?run = filter is_notify (filter (\<lambda>e. \<not> is_outbound e) ?run)"
    by (simp only: filter_notify_stage)
  with stages have notify: "filter is_notify ?run =
      [Call_sendTelegramNotification (fetch_errMsg X E) []]"
    by simp
  have "filter is_generate ?run = filter is_generate (filter (\<lambda>e. \<not> is_outbound e) ?run)"
    by (simp only: filter_generate_stage)
  with stages have generate: "filter is_generate ?run = []"
    by simp
  have "filter is_publish ?run = filter is_publish (filter (\<lambda>e. \<not> is_outbound e) ?run)"
    by (simp only: filter_publish_stage)
  with stages have publish: "filter is_publish ?run = []"
    by simp
  have "?run = fst (fetchArticle w X) @ sendTelegramNotification w (fetch_errMsg X E) []
                 @ [WriteHeader 200]"
    using assms handler_resolve_fails_trace [of w rbody update E] by simp
  then have signed: "filter is_signed ?run = []"
    by (simp add: fetchArticle_signed sendTelegramNotification_signed)
  have plain: "requestData chatID (fetch_errMsg X E) [] ''parse_mode'' = None"
    by (simp add: requestData_def)
  from notify plain generate publish signed show ?thesis
    by (simp add: fetch_errMsg_def)
qed

lemma outage_resolver_fails:
  "snd (fetchArticle outage_world ''abc123'') = Inl ''unexpected status code: 404''"
  by (simp add: fetchArticle_def outage_world_def fmt_d_def fmt_u.simps)

theorem C4_witness:
  "json_decode_update outage_world scenario_body
     = Inr \<lparr>UpdateID = 1, Message = \<lparr>Text = ''abc123''\<rparr>\<rparr>
   \<and> snd (fetchArticle outage_world ''abc123'') = Inl ''unexpected status code: 404''
   \<and> filter is_notify (telegramHandler outage_world scenario_body) =
        [Call_sendTelegramNotification
           ([CHR 0xE2, CHR 0x9D, CHR 0x8C]
            @ '' Failed to fetch article with ID abc123. Reason: unexpected status code: 404'') []]
   \<and> filter is_generate (telegramHandler outage_world scenario_body) = []
   \<and> filter is_publish (telegramHandler outage_world scenario_body) = []"
  using C4_resolver_failure_notified_once [OF outage_decodes _ abc123_no_url outage_resolver_fails]
    outage_decodes outage_resolver_fails
  by simp

section \<open>Full success of the pipeline\<close>

text \<open>The three stages succeed in the scenario world.\<close>

lemma scenario_resolves:
  "snd (fetchArticle scenario_world ''abc123'') = Inr scenario_article"
  by (simp add: fetchArticle_def scenario_world_def scenario_client_do_def http_Get_request_def)

lemma scenario_generates:
  "snd (getHashtags scenario_world (Title scenario_article) (Description scenario_article))
     = Inr ''#a #b #c''"
  by (simp add: getHashtags_def scenario_world_def scenario_client_do_def scenario_getenv_def
      scenario_marshal_request_def NewRequest_def Header_Set_def ReadAll_def scenario_article_def)

lemma scenario_publishes:
  "snd (postToTwitter scenario_world scenario_article ''abc123'' ''#a #b #c'') = None"
  by (simp add: postToTwitter_def scenario_world_def scenario_getenv_def NewRequest_def
      ReadAll_def)

text \<open>
  Claim C5, as the code has it. When all three stages succeed for the identifier \<open>X\<close>,
  the Publisher is invoked exactly once and sends exactly one signed request, a POST to
  the tweet endpoint whose payload carries the composed post text; that text is the
  article title, a newline, the hashtag string, two newlines (an empty line), and the
  article URL \<open>https://viewon.news/article.html?id=X\<close>.
\<close>

theorem C5_post_text_with_blank_line:
  assumes "json_decode_update w rbody = Inr update"
    and "Text (Message update) = X"
    and "\<not> HasPrefix X ''http://''"
    and "\<not> HasPrefix X ''https://''"
    and "snd (fetchArticle w X) = Inr article"
    and "snd (getHashtags w (Title article) (Description article)) = Inr hashtags"
    and "snd (postToTwitter w article X hashtags) = None"
  shows "filter is_publish (telegramHandler w rbody) = [Call_postToTwitter article X hashtags]
         \<and> (\<exists>ck cs t ts req.
               filter is_signed (telegramHandler w rbody) = [OAuth1ClientDo ck cs t ts req]
               \<and> Method req = ''POST'' \<and> URL req = ''https://api.twitter.com/2/tweets''
               \<and> ReqBody req = tweetPayload w (tweetText article X hashtags))
         \<and> tweetText article X hashtags =
               Title article @ [CHR 0x0A] @ hashtags @ [CHR 0x0A, CHR 0x0A]
               @ ''https://viewon.news/article.html?id='' @ X"
proof -
  let ?run = "telegramHandler w rbody"
  have stages: "filter (\<lambda>e. \<not> is_outbound e) ?run =
      [Call_fetchArticle X, Call_getHashtags (Title article) (Description article),
       Call_postToTwitter article X hashtags, WriteHeader 200,
       Call_sendTelegramNotification (successMessage X) ''MarkdownV2'']"
    using assms handler_success [of w rbody update article hashtags] by simp
  have "filter is_publish ?run = filter is_publish (filter (\<lambda>e. \<not> is_outbound e) ?run)"
    by (simp only: filter_publish_stage)
  with stages have publish: "filter is_publish ?run = [Call_postToTwitter article X hashtags]"
    by simp
  have trace: "?run = fst (fetchArticle w X)
                 @ fst (getHashtags w (Title article) (Description article))
                 @ fst (postToTwitter w article X hashtags)
                 @ [WriteHeader 200]
                 @ sendTelegramNotification w (successMessage X) ''MarkdownV2''"
    using assms handler_success_trace [of w rbody update article hashtags] by simp
  have "filter is_signed ?run = filter is_signed (fst (postToTwitter w article X hashtags))"
    by (simp add: trace fetchArticle_signed getHashtags_signed sendTelegramNotification_signed)
  also have "\<dots> =
      [OAuth1ClientDo (getenv w ''TWITTER_CONSUMER_KEY'') (getenv w ''TWITTER_CONSUMER_SECRET'')
         (getenv w ''TWITTER_ACCESS_TOKEN'') (getenv w ''TWITTER_ACCESS_SECRET'')
         (Header_Set \<lparr>Method = ''POST'', URL = tweetURL, Header = Map.empty,
                      ReqBody = tweetPayload w (tweetText article X hashtags)\<rparr>
            ''Content-Type'' ''application/json'')]"
    using assms(7) by (simp add: postToTwitter_success_events)
  finally have signed: "\<exists>ck cs t ts req.
      filter is_signed ?run = [OAuth1ClientDo ck cs t ts req]
      \<and> Method req = ''POST'' \<and> URL req = ''https://api.twitter.com/2/tweets''
      \<and> ReqBody req = tweetPayload w (tweetText article X hashtags)"
    by (simp add: Header_Set_def tweetURL_def)
  have composed: "tweetText article X hashtags =
      Title article @ [CHR 0x0A] @ hashtags @ [CHR 0x0A, CHR 0x0A]
      @ ''https://viewon.news/article.html?id='' @ X"
    by (simp add: tweetText_def articleURL_def)
  from publish signed composed show ?thesis by blast
qed

lemma scenario_text: "Text (Message \<lparr>UpdateID = 1, Message = \<lparr>Text = ''abc123''\<rparr>\<rparr>) = ''abc123''"
  by simp

theorem C5_witness:
  "snd (fetchArticle scenario_world ''abc123'') = Inr scenario_article
   \<and> snd (getHashtags scenario_world (Title scenario_article) (Description scenario_article))
       = Inr ''#a #b #c''
   \<and> snd (postToTwitter scenario_world scenario_article ''abc123'' ''#a #b #c'') = None
   \<and> filter is_publish (telegramHandler scenario_world scenario_body)
       = [Call_postToTwitter scenario_article ''abc123'' ''#a #b #c'']
   \<and> tweetText scenario_article ''abc123'' ''#a #b #c''
       = ''T'' @ [CHR 0x0A] @ ''#a #b #c'' @ [CHR 0x0A, CHR 0x0A]
         @ ''https://viewon.news/article.html?id=abc123''"
  using C5_post_text_with_blank_line [OF scenario_decodes scenario_text abc123_no_url
      scenario_resolves scenario_generates scenario_publishes]
    scenario_resolves scenario_generates scenario_publishes
  by (simp add: scenario_article_def)

text \<open>
  The text with a single newline between the hashtags and the URL, three lines in all,
  is not the text the code composes: in the scenario world all three stages succeed and
  the two texts differ.
\<close>

theorem C5_counterexample:
  "snd (fetchArticle scenario_world ''abc123'') = Inr scenario_article
   \<and> snd (getHashtags scenario_world (Title scenario_article) (Description scenario_article))
       = Inr ''#a #b #c''
   \<and> snd (postToTwitter scenario_world scenario_article ''abc123'' ''#a #b #c'') = None
   \<and> tweetText scenario_article ''abc123'' ''#a #b #c''
       \<noteq> Title scenario_article @ [CHR 0x0A] @ ''#a #b #c'' @ [CHR 0x0A]
           @ ''https://viewon.news/article.html?id=abc123''"
  using scenario_resolves scenario_generates scenario_publishes
  by (simp add: tweetText_def articleURL_def scenario_article_def)

text \<open>
  Claim C6. When all three stages succeed for the identifier \<open>X\<close>, the handler writes
  status 200 to the transport and after that invokes the Notifier, exactly once, with the
  message \<open>\<dots> Successfully posted article with ID: `X`\<close> (the dots are the UTF-8 bytes of
  the check-mark emoji) and the parse mode \<open>MarkdownV2\<close>, which the request data carries
  as \<open>parse_mode\<close>.
\<close>

theorem C6_success_acknowledged_then_notified:
  assumes "json_decode_update w rbody = Inr update"
    and "Text (Message update) = X"
    and "\<not> HasPrefix X ''http://''"
    and "\<not> HasPrefix X ''https://''"
    and "snd (fetchArticle w X) = Inr article"
    and "snd (getHashtags w (Title article) (Description article)) = Inr hashtags"
    and "snd (postToTwitter w article X hashtags) = None"
  shows "filter (\<lambda>e. is_response e \<or> is_notify e) (telegramHandler w rbody) =
           [WriteHeader 200,
            Call_sendTelegramNotification
              ([CHR 0xE2, CHR 0x9C, CHR 0x85] @ '' Successfully posted article with ID: `'' @ X
               @ ''`'') ''MarkdownV2'']
         \<and> requestData chatID (successMessage X) ''MarkdownV2'' ''parse_mode'' = Some ''MarkdownV2''
         \<and> transport_status (telegramHandler w rbody) = 200"
proof -
  let ?run = "telegramHandler w rbody"
  let ?both = "\<lambda>e. is_response e \<or> is_notify e"
  have stages: "filter (\<lambda>e. \<not> is_outbound e) ?run =
      [Call_fetchArticle X, Call_getHashtags (Title article) (Description article),
       Call_postToTwitter article X hashtags, WriteHeader 200,
       Call_sendTelegramNotification (successMessage X) ''MarkdownV2'']"
    using assms handler_success [of w rbody update article hashtags] by simp
  have "filter ?both (filter (\<lambda>e. \<not> is_outbound e) ?run) = filter ?both ?run"
    by (rule filter_stage) (auto dest: response_not_outbound notify_not_outbound)
  with stages have order: "filter ?both ?run =
      [WriteHeader 200, Call_sendTelegramNotification (successMessage X) ''MarkdownV2'']"
    by simp
  have rich: "requestData chatID (successMessage X) ''MarkdownV2'' ''parse_mode''
                = Some ''MarkdownV2''"
    by (simp add: requestData_def)
  have "filter is_response ?run = [WriteHeader 200]"
    using assms valid_trigger_responses [of w rbody update] by simp
  then have "transport_status (filter is_response ?run) = 200"
    by simp
  then have status: "transport_status ?run = 200"
    by (simp only: transport_status_filter)
  from order rich status show ?thesis
    by (simp add: successMessage_def)
qed

theorem C6_witness:
  "snd (fetchArticle scenario_world ''abc123'') = Inr scenario_article
   \<and> snd (getHashtags scenario_world (Title scenario_article) (Description scenario_article))
       = Inr ''#a #b #c''
   \<and> snd (postToTwitter scenario_world scenario_article ''abc123'' ''#a #b #c'') = None
   \<and> filter (\<lambda>e. is_response e \<or> is_notify e) (telegramHandler scenario_world scenario_body) =
        [WriteHeader 200,
         Call_sendTelegramNotification
           ([CHR 0xE2, CHR 0x9C, CHR 0x85] @ '' Successfully posted article with ID: `abc123`'')
           ''MarkdownV2'']
   \<and> transport_status (telegramHandler scenario_world scenario_body) = 200"
  using C6_success_acknowledged_then_notified [OF scenario_decodes scenario_text abc123_no_url
      scenario_resolves scenario_generates scenario_publishes]
    scenario_resolves scenario_generates scenario_publishes
  by simp

section \<open>The Publisher\<close>

text \<open>
  Claim C7, as the code has it. The Publisher returns success (\<open>nil\<close>) only if the
  social-media service answered its request with status 201 and the body of the answer
  was read. Once the credentials are set, the request is built and the service has
  answered: the Publisher returns success if and only if the status is 201 and the body
  is read without error; when the body is read and the status is any other one, 200
  included, it returns the error whose text is the status code followed by the response
  body; and when reading the body fails it returns the read error, whatever the status.
\<close>

theorem C7_publisher_succeeds_on_201_read:
  "(snd (postToTwitter w article messageID hashtags) = None \<longrightarrow>
      (\<exists>req resp body.
          oauth1_client_do w (getenv w ''TWITTER_CONSUMER_KEY'')
            (getenv w ''TWITTER_CONSUMER_SECRET'') (getenv w ''TWITTER_ACCESS_TOKEN'')
            (getenv w ''TWITTER_ACCESS_SECRET'') req = Inr resp
          \<and> StatusCode resp = 201 \<and> ReadAll (Body resp) = Inr body))
   \<and> (getenv w ''TWITTER_CONSUMER_KEY'' = ck \<and> ck \<noteq> []
        \<and> getenv w ''TWITTER_CONSUMER_SECRET'' = cs \<and> cs \<noteq> []
        \<and> getenv w ''TWITTER_ACCESS_TOKEN'' = t \<and> t \<noteq> []
        \<and> getenv w ''TWITTER_ACCESS_SECRET'' = ts \<and> ts \<noteq> []
        \<and> NewRequest w ''POST'' tweetURL (tweetPayload w (tweetText article messageID hashtags))
            = Inr req0
        \<and> oauth1_client_do w ck cs t ts (Header_Set req0 ''Content-Type'' ''application/json'')
            = Inr resp \<longrightarrow>
        ((snd (postToTwitter w article messageID hashtags) = None)
           = (StatusCode resp = 201 \<and> (\<exists>body. ReadAll (Body resp) = Inr body)))
        \<and> (\<forall>body. ReadAll (Body resp) = Inr body \<and> StatusCode resp \<noteq> 201 \<longrightarrow>
              snd (postToTwitter w article messageID hashtags) =
                Some (''received non-201 status code: '' @ fmt_d (StatusCode resp) @ [CHR 0x0A]
                      @ ''Response: '' @ body))
        \<and> (\<forall>e. ReadAll (Body resp) = Inl e \<longrightarrow>
              snd (postToTwitter w article messageID hashtags) =
                Some (''failed to read response body: '' @ e)))"
proof (intro conjI impI allI)
  assume "snd (postToTwitter w article messageID hashtags) = None"
  then show "\<exists>req resp body.
      oauth1_client_do w (getenv w ''TWITTER_CONSUMER_KEY'')
        (getenv w ''TWITTER_CONSUMER_SECRET'') (getenv w ''TWITTER_ACCESS_TOKEN'')
        (getenv w ''TWITTER_ACCESS_SECRET'') req = Inr resp
      \<and> StatusCode resp = 201 \<and> ReadAll (Body resp) = Inr body"
    by (auto simp add: postToTwitter_def Let_def split: if_splits sum.splits)
next
  assume h: "getenv w ''TWITTER_CONSUMER_KEY'' = ck \<and> ck \<noteq> []
        \<and> getenv w ''TWITTER_CONSUMER_SECRET'' = cs \<and> cs \<noteq> []
        \<and> getenv w ''TWITTER_ACCESS_TOKEN'' = t \<and> t \<noteq> []
        \<and> getenv w ''TWITTER_ACCESS_SECRET'' = ts \<and> ts \<noteq> []
        \<and> NewRequest w ''POST'' tweetURL (tweetPayload w (tweetText article messageID hashtags))
            = Inr req0
        \<and> oauth1_client_do w ck cs t ts (Header_Set req0 ''Content-Type'' ''application/json'')
            = Inr resp"
  then show "(snd (postToTwitter w article messageID hashtags) = None)
      = (StatusCode resp = 201 \<and> (\<exists>body. ReadAll (Body resp) = Inr body))"
    by (auto simp add: postToTwitter_def Let_def split: sum.splits)
  fix body
  assume "ReadAll (Body resp) = Inr body \<and> StatusCode resp \<noteq> 201"
  with h show "snd (postToTwitter w article messageID hashtags) =
      Some (''received non-201 status code: '' @ fmt_d (StatusCode resp) @ [CHR 0x0A]
            @ ''Response: '' @ body)"
    by (simp add: postToTwitter_def Let_def)
next
  fix e
  assume h: "getenv w ''TWITTER_CONSUMER_KEY'' = ck \<and> ck \<noteq> []
        \<and> getenv w ''TWITTER_CONSUMER_SECRET'' = cs \<and> cs \<noteq> []
        \<and> getenv w ''TWITTER_ACCESS_TOKEN'' = t \<and> t \<noteq> []
        \<and> getenv w ''TWITTER_ACCESS_SECRET'' = ts \<and> ts \<noteq> []
        \<and> NewRequest w ''POST'' tweetURL (tweetPayload w (tweetText article messageID hashtags))
            = Inr req0
        \<and> oauth1_client_do w ck cs t ts (Header_Set req0 ''Content-Type'' ''application/json'')
            = Inr resp"
  assume "ReadAll (Body resp) = Inl e"
  with h show "snd (postToTwitter w article messageID hashtags)
      = Some (''failed to read response body: '' @ e)"
    by (simp add: postToTwitter_def Let_def)
qed

text \<open>Facts of the three worlds that differ in the answer of the social-media service.\<close>

lemma publisher_credentials:
  "getenv scenario_world ''TWITTER_CONSUMER_KEY'' = ''ck''"
  "getenv scenario_world ''TWITTER_CONSUMER_SECRET'' = ''cs''"
  "getenv scenario_world ''TWITTER_ACCESS_TOKEN'' = ''at''"
  "getenv scenario_world ''TWITTER_ACCESS_SECRET'' = ''as''"
  "getenv ok_world = getenv scenario_world"
  "getenv unreadable_world = getenv scenario_world"
  by (simp_all add: ok_world_def unreadable_world_def scenario_world_def scenario_getenv_def)

lemma publisher_request:
  "NewRequest ok_world ''POST'' tweetURL p
     = Inr \<lparr>Method = ''POST'', URL = tweetURL, Header = Map.empty, ReqBody = p\<rparr>"
  "NewRequest unreadable_world ''POST'' tweetURL p
     = Inr \<lparr>Method = ''POST'', URL = tweetURL, Header = Map.empty, ReqBody = p\<rparr>"
  by (simp_all add: NewRequest_def ok_world_def unreadable_world_def scenario_world_def)

lemma ok_world_response:
  \<open>oauth1_client_do ok_world ck cs t ts req
     = Inr \<lparr>StatusCode = 200, Body = Inr ''{"data":{}}''\<rparr>\<close>
  by (simp add: ok_world_def)

lemma unreadable_world_response:
  "oauth1_client_do unreadable_world ck cs t ts req
     = Inr \<lparr>StatusCode = 201, Body = Inl ''unexpected EOF''\<rparr>"
  by (simp add: unreadable_world_def)

theorem C7_witness:
  \<open>snd (postToTwitter scenario_world scenario_article ''abc123'' ''#a #b #c'') = None
   \<and> (\<exists>req resp body.
         oauth1_client_do scenario_world (getenv scenario_world ''TWITTER_CONSUMER_KEY'')
           (getenv scenario_world ''TWITTER_CONSUMER_SECRET'')
           (getenv scenario_world ''TWITTER_ACCESS_TOKEN'')
           (getenv scenario_world ''TWITTER_ACCESS_SECRET'') req = Inr resp
         \<and> StatusCode resp = 201 \<and> ReadAll (Body resp) = Inr body)
   \<and> oauth1_client_do ok_world ''ck'' ''cs'' ''at'' ''as''
        (Header_Set \<lparr>Method = ''POST'', URL = tweetURL, Header = Map.empty,
            ReqBody = tweetPayload ok_world (tweetText scenario_article ''abc123'' ''#a #b #c'')\<rparr>
           ''Content-Type'' ''application/json'')
       = Inr \<lparr>StatusCode = 200, Body = Inr ''{"data":{}}''\<rparr>
   \<and> snd (postToTwitter ok_world scenario_article ''abc123'' ''#a #b #c'') \<noteq> None
   \<and> snd (postToTwitter ok_world scenario_article ''abc123'' ''#a #b #c'')
       = Some (''received non-201 status code: 200'' @ [CHR 0x0A] @ ''Response: {"data":{}}'')
   \<and> snd (postToTwitter unreadable_world scenario_article ''abc123'' ''#a #b #c'')
       = Some ''failed to read response body: unexpected EOF''\<close>
proof -
  let ?a = scenario_article and ?i = "''abc123''" and ?h = "''#a #b #c''"
  note created = C7_publisher_succeeds_on_201_read [of scenario_world ?a ?i ?h,
      THEN conjunct1, THEN mp, OF scenario_publishes]
  note other = C7_publisher_succeeds_on_201_read [of ok_world ?a ?i ?h
      "''ck''" "''cs''" "''at''" "''as''", THEN conjunct2, THEN mp]
  note broken = C7_publisher_succeeds_on_201_read [of unreadable_world ?a ?i ?h
      "''ck''" "''cs''" "''at''" "''as''", THEN conjunct2, THEN mp]
  have ok_hyps: \<open>getenv ok_world ''TWITTER_CONSUMER_KEY'' = ''ck'' \<and> ''ck'' \<noteq> []
      \<and> getenv ok_world ''TWITTER_CONSUMER_SECRET'' = ''cs'' \<and> ''cs'' \<noteq> []
      \<and> getenv ok_world ''TWITTER_ACCESS_TOKEN'' = ''at'' \<and> ''at'' \<noteq> []
      \<and> getenv ok_world ''TWITTER_ACCESS_SECRET'' = ''as'' \<and> ''as'' \<noteq> []
      \<and> NewRequest ok_world ''POST'' tweetURL (tweetPayload ok_world (tweetText ?a ?i ?h))
         = Inr \<lparr>Method = ''POST'', URL = tweetURL, Header = Map.empty,
                ReqBody = tweetPayload ok_world (tweetText ?a ?i ?h)\<rparr>
      \<and> oauth1_client_do ok_world ''ck'' ''cs'' ''at'' ''as''
           (Header_Set \<lparr>Method = ''POST'', URL = tweetURL, Header = Map.empty,
               ReqBody = tweetPayload ok_world (tweetText ?a ?i ?h)\<rparr>
              ''Content-Type'' ''application/json'')
         = Inr \<lparr>StatusCode = 200, Body = Inr ''{"data":{}}''\<rparr>\<close>
    by (simp add: publisher_credentials publisher_request ok_world_response)
  have un_hyps: \<open>getenv unreadable_world ''TWITTER_CONSUMER_KEY'' = ''ck'' \<and> ''ck'' \<noteq> []
      \<and> getenv unreadable_world ''TWITTER_CONSUMER_SECRET'' = ''cs'' \<and> ''cs'' \<noteq> []
      \<and> getenv unreadable_world ''TWITTER_ACCESS_TOKEN'' = ''at'' \<and> ''at'' \<noteq> []
      \<and> getenv unreadable_world ''TWITTER_ACCESS_SECRET'' = ''as'' \<and> ''as'' \<noteq> []
      \<and> NewRequest unreadable_world ''POST'' tweetURL
           (tweetPayload unreadable_world (tweetText ?a ?i ?h))
         = Inr \<lparr>Method = ''POST'', URL = tweetURL, Header = Map.empty,
                ReqBody = tweetPayload unreadable_world (tweetText ?a ?i ?h)\<rparr>
      \<and> oauth1_client_do unreadable_world ''ck'' ''cs'' ''at'' ''as''
           (Header_Set \<lparr>Method = ''POST'', URL = tweetURL, Header = Map.empty,
               ReqBody = tweetPayload unreadable_world (tweetText ?a ?i ?h)\<rparr>
              ''Content-Type'' ''application/json'')
         = Inr \<lparr>StatusCode = 201, Body = Inl ''unexpected EOF''\<rparr>\<close>
    by (simp add: publisher_credentials publisher_request unreadable_world_response)
  have not_created: \<open>snd (postToTwitter ok_world ?a ?i ?h)
      = Some (''received non-201 status code: '' @ fmt_d 200 @ [CHR 0x0A]
              @ ''Response: {"data":{}}'')\<close>
    using other [OF ok_hyps] by (simp add: ReadAll_def)
  have not_read: "snd (postToTwitter unreadable_world ?a ?i ?h)
      = Some ''failed to read response body: unexpected EOF''"
    using broken [OF un_hyps] by (simp add: ReadAll_def)
  from created not_created not_read show ?thesis
    using scenario_publishes ok_world_response
    by (simp add: fmt_d_def fmt_u.simps)
qed

text \<open>
  A 201 answer that is not a success: the code reads the body before it tests the status,
  so in the world whose social-media service answers 201 with a body that cannot be read
  the Publisher sends its request, receives status 201 and returns an error.
\<close>

theorem C7_counterexample:
  "oauth1_client_do unreadable_world
       (getenv unreadable_world ''TWITTER_CONSUMER_KEY'')
       (getenv unreadable_world ''TWITTER_CONSUMER_SECRET'')
       (getenv unreadable_world ''TWITTER_ACCESS_TOKEN'')
       (getenv unreadable_world ''TWITTER_ACCESS_SECRET'')
       (Header_Set \<lparr>Method = ''POST'', URL = tweetURL, Header = Map.empty,
           ReqBody = tweetPayload unreadable_world
                       (tweetText scenario_article ''abc123'' ''#a #b #c'')\<rparr>
          ''Content-Type'' ''application/json'')
     = Inr \<lparr>StatusCode = 201, Body = Inl ''unexpected EOF''\<rparr>
   \<and> fst (postToTwitter unreadable_world scenario_article ''abc123'' ''#a #b #c'')
       = [Call_postToTwitter scenario_article ''abc123'' ''#a #b #c'',
          OAuth1ClientDo ''ck'' ''cs'' ''at'' ''as''
            (Header_Set \<lparr>Method = ''POST'', URL = tweetURL, Header = Map.empty,
                ReqBody = tweetPayload unreadable_world
                            (tweetText scenario_article ''abc123'' ''#a #b #c'')\<rparr>
               ''Content-Type'' ''application/json'')]
   \<and> snd (postToTwitter unreadable_world scenario_article ''abc123'' ''#a #b #c'')
       = Some ''failed to read response body: unexpected EOF''
   \<and> snd (postToTwitter unreadable_world scenario_article ''abc123'' ''#a #b #c'') \<noteq> None"
  by (simp add: postToTwitter_def Let_def publisher_credentials publisher_request
      unreadable_world_response ReadAll_def)

section \<open>The Hashtag Generator\<close>

text \<open>
  Claim C8. Once the API key is set, the request is marshalled, built and answered by the
  language-model endpoint with status 200 and a body that unmarshals to the response
  \<open>r\<close>: when \<open>r\<close> holds at least one completion, the Hashtag Generator returns the
  content of the first one as it is; and it returns the error
  \<open>no content found in OpenRouter response\<close> exactly when \<open>r\<close> holds no completion.
\<close>

theorem C8_first_completion_verbatim:
  assumes "getenv w ''OPENROUTER_API_KEY'' = apiKey" and "apiKey \<noteq> []"
    and "json_marshal_request w (requestBody title description) = Inr payload"
    and "NewRequest w ''POST'' ''https://openrouter.ai/api/v1/chat/completions'' payload = Inr req0"
    and "client_do w (Header_Set (Header_Set req0 ''Authorization'' (''Bearer '' @ apiKey))
                        ''Content-Type'' ''application/json'') = Inr resp"
    and "ReadAll (Body resp) = Inr body"
    and "StatusCode resp = 200"
    and "json_unmarshal_response w body = Inr r"
  shows "(\<forall>c cs. Choices r = c # cs \<longrightarrow>
            snd (getHashtags w title description) = Inr (MessageContent c))
         \<and> ((snd (getHashtags w title description) = Inl ''no content found in OpenRouter response'')
              = (Choices r = []))"
  using assms by (auto simp add: getHashtags_def Let_def)

lemma no_choice_unmarshal:
  \<open>json_unmarshal_response no_choice_world ''{"choices":[]}'' = Inr \<lparr>Choices = []\<rparr>\<close>
  by (simp add: no_choice_world_def scenario_world_def)

theorem C8_witness:
  "snd (getHashtags scenario_world ''T'' ''D'') = Inr ''#a #b #c''
   \<and> snd (getHashtags no_choice_world ''T'' ''D'') = Inl ''no content found in OpenRouter response''"
proof -
  let ?url = "''https://openrouter.ai/api/v1/chat/completions''"
  obtain p where p: "scenario_marshal_request (requestBody ''T'' ''D'') = Inr p"
    by (simp add: scenario_marshal_request_def)
  let ?bare = "\<lparr>Method = ''POST'', URL = ?url, Header = Map.empty, ReqBody = p\<rparr>"
  let ?req = "Header_Set (Header_Set ?bare ''Authorization'' (''Bearer '' @ ''sk-or''))
                ''Content-Type'' ''application/json''"
  have key: "getenv scenario_world ''OPENROUTER_API_KEY'' = ''sk-or''" "''sk-or'' \<noteq> []"
    by (simp_all add: scenario_world_def scenario_getenv_def)
  have marshal: "json_marshal_request scenario_world (requestBody ''T'' ''D'') = Inr p"
    using p by (simp add: scenario_world_def)
  have request: "NewRequest scenario_world ''POST'' ?url p = Inr ?bare"
    by (simp add: NewRequest_def scenario_world_def)
  have response: \<open>client_do scenario_world ?req
      = Inr \<lparr>StatusCode = 200, Body = Inr ''{"choices":[{"message":{"content":"#a #b #c"}}]}''\<rparr>\<close>
    by (simp add: scenario_world_def scenario_client_do_def Header_Set_def)
  have body: \<open>ReadAll (Body \<lparr>StatusCode = 200,
        Body = Inr ''{"choices":[{"message":{"content":"#a #b #c"}}]}''\<rparr>)
      = Inr ''{"choices":[{"message":{"content":"#a #b #c"}}]}''\<close>
    by (simp add: ReadAll_def)
  have status: \<open>StatusCode \<lparr>StatusCode = 200,
        Body = Inr ''{"choices":[{"message":{"content":"#a #b #c"}}]}''\<rparr> = 200\<close>
    by simp
  have unmarshal: \<open>json_unmarshal_response scenario_world
        ''{"choices":[{"message":{"content":"#a #b #c"}}]}''
      = Inr \<lparr>Choices = [\<lparr>MessageContent = ''#a #b #c''\<rparr>]\<rparr>\<close>
    by (simp add: scenario_world_def)
  have first: "snd (getHashtags scenario_world ''T'' ''D'') = Inr ''#a #b #c''"
    using C8_first_completion_verbatim [OF key marshal request response body status unmarshal]
    by simp
  have key': "getenv no_choice_world ''OPENROUTER_API_KEY'' = ''sk-or''"
    by (simp add: no_choice_world_def scenario_world_def scenario_getenv_def)
  have marshal': "json_marshal_request no_choice_world (requestBody ''T'' ''D'') = Inr p"
    using p by (simp add: no_choice_world_def scenario_world_def)
  have request': "NewRequest no_choice_world ''POST'' ?url p = Inr ?bare"
    by (simp add: NewRequest_def no_choice_world_def scenario_world_def)
  have response': \<open>client_do no_choice_world ?req
      = Inr \<lparr>StatusCode = 200, Body = Inr ''{"choices":[]}''\<rparr>\<close>
    by (simp add: no_choice_world_def Header_Set_def)
  have body': \<open>ReadAll (Body \<lparr>StatusCode = 200, Body = Inr ''{"choices":[]}''\<rparr>)
      = Inr ''{"choices":[]}''\<close>
    by (simp add: ReadAll_def)
  have status': \<open>StatusCode \<lparr>StatusCode = 200, Body = Inr ''{"choices":[]}''\<rparr> = 200\<close>
    by simp
  have none: "snd (getHashtags no_choice_world ''T'' ''D'')
      = Inl ''no content found in OpenRouter response''"
    using C8_first_completion_verbatim [OF key' key(2) marshal' request' response' body' status'
        no_choice_unmarshal]
    by simp
  from first none show ?thesis by simp
qed

section \<open>One attempt per stage\<close>











section \<open>What the post depends on\<close>

text \<open>
  Claim C10. For two invocations of the Publisher in the same world that agree on the
  identifier, the hashtags and the title of the article, whatever the descriptions and
  images of the two articles are, the composed post text is the same, the request sent
  is the same and the result is the same.
\<close>

theorem C10_post_independent_of_description_and_image:
  assumes "Title a1 = Title a2"
  shows "tweetText a1 messageID hashtags = tweetText a2 messageID hashtags
         \<and> filter is_outbound (fst (postToTwitter w a1 messageID hashtags))
             = filter is_outbound (fst (postToTwitter w a2 messageID hashtags))
         \<and> snd (postToTwitter w a1 messageID hashtags) = snd (postToTwitter w a2 messageID hashtags)"
proof -
  have same: "tweetText a1 messageID hashtags = tweetText a2 messageID hashtags"
    using assms by (simp add: tweetText_def)
  show ?thesis
    by (simp add: same postToTwitter_def Let_def split: sum.splits)
qed

theorem C10_witness:
  "Title scenario_article = Title other_article
   \<and> Description scenario_article \<noteq> Description other_article
   \<and> Image scenario_article \<noteq> Image other_article
   \<and> tweetText scenario_article ''abc123'' ''#a #b #c''
       = tweetText other_article ''abc123'' ''#a #b #c''
   \<and> filter is_outbound (fst (postToTwitter scenario_world scenario_article ''abc123'' ''#a #b #c''))
       = filter is_outbound (fst (postToTwitter scenario_world other_article ''abc123'' ''#a #b #c''))
   \<and> snd (postToTwitter scenario_world other_article ''abc123'' ''#a #b #c'') = None"
proof -
  have same: "Title scenario_article = Title other_article"
    by (simp add: scenario_article_def other_article_def)
  have differ: "Description scenario_article \<noteq> Description other_article"
      "Image scenario_article \<noteq> Image other_article"
    by (simp_all add: scenario_article_def other_article_def)
  show ?thesis
    using C10_post_independent_of_description_and_image [OF same, of "''abc123''" "''#a #b #c''"
        scenario_world]
      same differ scenario_publishes
    by simp
qed

end
